theory Spec2Isabelle
  imports Main "HOL-Library.Sublist"
begin

section \<open>Strings\<close>

text \<open>
  Go strings are byte sequences; they are modelled as \<^typ>\<open>string\<close> (lists of 8-bit
  characters). The character classes below are the ASCII ones: \<open>strings.TrimSpace\<close> and
  \<open>strings.ToLower\<close> take their byte-wise fast path on ASCII text, which is the text
  the model covers (bytes from 0x80 on are treated as ordinary characters).
\<close>

definition isSpace :: "char \<Rightarrow> bool" where
  \<comment> \<open>the white space of \<open>strings.TrimSpace\<close>: tab, newline, vertical tab, form feed, return, space\<close>
  "isSpace c = (c \<in> {CHR 0x09, CHR 0x0A, CHR 0x0B, CHR 0x0C, CHR 0x0D, CHR '' ''})"

definition isReSpace :: "char \<Rightarrow> bool" where
  \<comment> \<open>the class \<open>\s\<close> of Go's regexp: tab, newline, form feed, return, space\<close>
  "isReSpace c = (c \<in> {CHR 0x09, CHR 0x0A, CHR 0x0C, CHR 0x0D, CHR '' ''})"

definition isUpper :: "char \<Rightarrow> bool" where
  "isUpper c = (let n = (of_char c :: nat) in 65 \<le> n \<and> n \<le> 90)"

definition isLower :: "char \<Rightarrow> bool" where
  "isLower c = (let n = (of_char c :: nat) in 97 \<le> n \<and> n \<le> 122)"

definition isDigit :: "char \<Rightarrow> bool" where
  "isDigit c = (let n = (of_char c :: nat) in 48 \<le> n \<and> n \<le> 57)"

definition lowerChar :: "char \<Rightarrow> char" where
  "lowerChar c = (if isUpper c then char_of (of_char c + (32 :: nat)) else c)"

definition ToLower :: "string \<Rightarrow> string" where
  "ToLower s = map lowerChar s"

definition TrimSpace :: "string \<Rightarrow> string" where
  "TrimSpace s = rev (dropWhile isSpace (rev (dropWhile isSpace s)))"

definition TrimLeft :: "string \<Rightarrow> char \<Rightarrow> string" where
  \<comment> \<open>\<open>strings.TrimLeft(s, cutset)\<close> for a cutset of one character\<close>
  "TrimLeft s c = dropWhile (\<lambda>x. x = c) s"

definition TrimRight :: "string \<Rightarrow> char \<Rightarrow> string" where
  \<comment> \<open>\<open>strings.TrimRight(s, cutset)\<close> for a cutset of one character\<close>
  "TrimRight s c = rev (dropWhile (\<lambda>x. x = c) (rev s))"

definition Trim :: "string \<Rightarrow> char \<Rightarrow> string" where
  \<comment> \<open>\<open>strings.Trim(s, cutset)\<close> for a cutset of one character\<close>
  "Trim s c = TrimRight (TrimLeft s c) c"

definition HasPrefix :: "string \<Rightarrow> string \<Rightarrow> bool" where
  "HasPrefix s p = prefix p s"

definition HasSuffix :: "string \<Rightarrow> string \<Rightarrow> bool" where
  "HasSuffix s p = suffix p s"

fun Contains :: "string \<Rightarrow> string \<Rightarrow> bool" where
  "Contains [] sub = (sub = [])"
| "Contains (c # cs) sub = (prefix sub (c # cs) \<or> Contains cs sub)"

fun Split :: "string \<Rightarrow> string list" where
  \<comment> \<open>\<open>strings.Split(s, "\n")\<close>: one more piece than there are newlines\<close>
  "Split [] = [[]]"
| "Split (c # cs) =
     (if c = CHR 0x0A then [] # Split cs
      else (case Split cs of [] \<Rightarrow> [[c]] | l # ls \<Rightarrow> (c # l) # ls))"

fun Join :: "string list \<Rightarrow> string" where
  \<comment> \<open>\<open>strings.Join(xs, "\n")\<close>\<close>
  "Join [] = []"
| "Join [x] = x"
| "Join (x # y # ys) = x @ CHR 0x0A # Join (y # ys)"

section \<open>Environment-variable substitution\<close>

definition isIdentStart :: "char \<Rightarrow> bool" where
  "isIdentStart c = (isUpper c \<or> isLower c \<or> c = CHR ''_'')"

definition isIdentChar :: "char \<Rightarrow> bool" where
  "isIdentChar c = (isUpper c \<or> isLower c \<or> isDigit c \<or> c = CHR ''_'')"

text \<open>
  The regular expression of \<open>injectEnvVariables\<close> is
  \<^verbatim>\<open>\${{\s*([A-Za-z_][A-Za-z0-9_]*)\s*}}\<close>. Its three repetitions range over classes
  that are disjoint from what follows them, so a match that starts at a given position is
  unique: \<open>match_placeholder s\<close> is the match anchored at the head of \<open>s\<close>, as the matched
  text, the captured name and the rest of the input.
\<close>

definition match_placeholder :: "string \<Rightarrow> (string \<times> string \<times> string) option" where
  "match_placeholder s =
     (if prefix ''${{'' s then
        (let r = drop 3 s;
             ws1 = takeWhile isReSpace r; r1 = dropWhile isReSpace r;
             name = takeWhile isIdentChar r1; r2 = dropWhile isIdentChar r1;
             ws2 = takeWhile isReSpace r2; r3 = dropWhile isReSpace r2
         in if name \<noteq> [] \<and> isIdentStart (hd name) \<and> prefix ''}}'' r3
            then Some (''${{'' @ ws1 @ name @ ws2 @ ''}}'', name, drop 2 r3)
            else None)
      else None)"

lemma match_placeholder_split:
  assumes "match_placeholder s = Some (m, name, rest)"
  shows "s = m @ rest \<and> m \<noteq> []"
proof -
  from assms have p: "prefix ''${{'' s"
    by (simp add: match_placeholder_def split: if_splits)
  define r where "r = drop 3 s"
  define r1 where "r1 = dropWhile isReSpace r"
  define r2 where "r2 = dropWhile isIdentChar r1"
  define r3 where "r3 = dropWhile isReSpace r2"
  from p have s: "s = ''${{'' @ r" unfolding r_def by (auto simp: prefix_def)
  from assms p have q: "prefix ''}}'' r3"
    and m: "m = ''${{'' @ takeWhile isReSpace r @ takeWhile isIdentChar r1
                 @ takeWhile isReSpace r2 @ ''}}''"
    and rest: "rest = drop 2 r3"
    unfolding r_def r1_def r2_def r3_def
    by (auto simp: match_placeholder_def Let_def split: if_splits)
  from q have r3: "r3 = ''}}'' @ rest" unfolding rest by (auto simp: prefix_def)
  have "r = takeWhile isReSpace r @ r1" unfolding r1_def by simp
  also have "r1 = takeWhile isIdentChar r1 @ r2" unfolding r2_def by simp
  also have "r2 = takeWhile isReSpace r2 @ r3" unfolding r3_def by simp
  finally have "r = takeWhile isReSpace r @ takeWhile isIdentChar r1
                    @ takeWhile isReSpace r2 @ ''}}'' @ rest"
    using r3 by simp
  with s m show ?thesis by simp
qed

text \<open>
  \<open>ReplaceAllStringFunc\<close> scans from the left, replaces each match by the callback's
  result and resumes after the match; the callback looks the captured name up in the map
  and returns the match itself when the name is missing.
\<close>

function injectEnvVariables :: "string \<Rightarrow> (string \<rightharpoonup> string) \<Rightarrow> string" where
  "injectEnvVariables [] env = []"
| "injectEnvVariables (c # cs) env =
     (case match_placeholder (c # cs) of
        None \<Rightarrow> c # injectEnvVariables cs env
      | Some (m, name, rest) \<Rightarrow>
          (case env name of Some val \<Rightarrow> val | None \<Rightarrow> m) @ injectEnvVariables rest env)"
  by pat_completeness auto
termination
proof (relation "measure (\<lambda>(s, env). length s)")
  show "wf (measure (\<lambda>(s, env). length s))" by simp
next
  fix c :: char and cs :: string and env :: "string \<rightharpoonup> string"
  show "((cs, env), c # cs, env) \<in> measure (\<lambda>(s, env). length s)" by simp
next
  fix c :: char and cs :: string and env :: "string \<rightharpoonup> string" and x2 m y name rest
  assume "match_placeholder (c # cs) = Some x2" "(m, y) = x2" "(name, rest) = y"
  then have "match_placeholder (c # cs) = Some (m, name, rest)" by simp
  from match_placeholder_split[OF this] have e: "c # cs = m @ rest" and n: "m \<noteq> []"
    by blast+
  from arg_cong[OF e, of length] n
  show "((rest, env), c # cs, env) \<in> measure (\<lambda>(s, env). length s)" by simp
qed

section \<open>The entity/action registry\<close>

record Action =
  Description :: string
  NeedsID :: bool
  Schema :: string

definition act :: "string \<Rightarrow> bool \<Rightarrow> Action" where
  \<comment> \<open>a registry entry without \<open>Schema\<close>: Go leaves the field at its zero value\<close>
  "act d n = \<lparr>Description = d, NeedsID = n, Schema = []\<rparr>"

definition workflow_create_schema :: string where
  \<open>workflow_create_schema = Join
    [''{'',
     ''  "name": "My Workflow",'',
     ''  "nodes": ['',
     ''    {'',
     ''      "id": "1",'',
     ''      "name": "Start",'',
     ''      "type": "n8n-nodes-base.manualTrigger",'',
     ''      "typeVersion": 1,'',
     ''      "position": [250, 300]'',
     ''    }'',
     ''  ],'',
     ''  "connections": {},'',
     ''  "active": false'',
     ''}'']\<close>

definition credential_create_schema :: string where
  \<open>credential_create_schema = Join
    [''{'',
     ''  "name": "Joe'' @ [CHR 0x27] @ ''s GitHub Credentials",'',
     ''  "type": "httpHeaderAuth",'',
     ''  "data": {'',
     ''    "name": "Authorization",'',
     ''    "value": "Bearer ghp_xxxxyyyyyyyyyy"'',
     ''  },'',
     ''  "nodesAccess": ['',
     ''    {'',
     ''      "nodeType": "n8n-nodes-base.httpRequest"'',
     ''    }'',
     ''  ]'',
     ''}'']\<close>

definition deploy_schema :: string where
  \<comment> \<open>the dash of the source text is U+2014, three bytes in UTF-8\<close>
  "deploy_schema = ''(No schema '' @ [CHR 0xE2, CHR 0x80, CHR 0x94]
     @ '' uses .out/workflow.json from preview)''"

text \<open>
  Go's map literal is kept as an association list (the keys are distinct); a lookup
  \<open>m[k]\<close> is \<^const>\<open>map_of\<close>.
\<close>

definition Entities :: "(string \<times> (string \<times> Action) list) list" where
  "Entities =
    [(''users'',
       [(''list'', act ''List all users'' False),
        (''create'', act ''Create a new user'' False),
        (''get'', act ''Get a user by ID'' True),
        (''update'', act ''Update a user by ID'' True),
        (''delete'', act ''Delete a user by ID'' True)]),
     (''audit'',
       [(''create'', act ''Create an audit log'' False)]),
     (''executions'',
       [(''list'', act ''List executions'' False),
        (''get'', act ''Get an execution by ID'' True),
        (''delete'', act ''Delete an execution by ID'' True)]),
     (''workflows'',
       [(''list'', act ''List workflow instances'' False),
        (''get'', act ''Get a workflow instance by ID'' True),
        (''create'', \<lparr>Description = ''Create a workflow instance'', NeedsID = False,
                      Schema = workflow_create_schema\<rparr>),
        (''update'', act ''Update a workflow instance by ID'' True),
        (''delete'', act ''Delete a workflow instance by ID'' True),
        (''activate'', act ''Activate a workflow instance by ID'' True),
        (''deactivate'', act ''Deactivate a workflow instance by ID'' True),
        (''preview'', act ''Preview a workflow template (with confirmation to save and show diff)'' False),
        (''diff'', act ''Show diff between existing and new workflow templates'' False),
        (''deploy'', \<lparr>Description = ''Deploy a workflow instance'', NeedsID = False,
                      Schema = deploy_schema\<rparr>),
        (''rollback'', act ''Rollback a workflow instance'' False)]),
     (''credentials'',
       [(''list'', act ''List credentials'' False),
        (''create'', \<lparr>Description = ''Create a credential'', NeedsID = False,
                      Schema = credential_create_schema\<rparr>),
        (''get'', act ''Get a credential by ID'' True),
        (''update'', act ''Update a credential by ID'' True),
        (''delete'', act ''Delete a credential by ID'' True)]),
     (''tags'',
       [(''list'', act ''List tags'' False),
        (''create'', act ''Create a tag'' False),
        (''get'', act ''Get a tag by ID'' True),
        (''update'', act ''Update a tag by ID'' True),
        (''delete'', act ''Delete a tag by ID'' True)]),
     (''source-control'',
       [(''list'', act ''List source control configs'' False),
        (''get'', act ''Get a source control config by ID'' True),
        (''update'', act ''Update a source control config by ID'' True)]),
     (''variables'',
       [(''list'', act ''List variables'' False),
        (''create'', act ''Create a variable'' False),
        (''get'', act ''Get a variable by ID'' True),
        (''update'', act ''Update a variable by ID'' True),
        (''delete'', act ''Delete a variable by ID'' True)]),
     (''projects'',
       [(''list'', act ''List projects'' False),
        (''create'', act ''Create a project'' False),
        (''get'', act ''Get a project by ID'' True),
        (''update'', act ''Update a project by ID'' True),
        (''delete'', act ''Delete a project by ID'' True)])]"

section \<open>The world of the program\<close>

record Config =
  APIToken :: string
  BaseURL :: string

record request =
  req_method :: string
  req_url :: string
  req_body :: string
  req_headers :: "(string \<times> string) list"

datatype reply =
    TransportError string
  | BodyError string
  | Response int string string

text \<open>
  The state the program reads and changes: regular files and directories by path, the
  unread rest of standard input, what was printed (one entry for each print call), the
  HTTP requests handed to the client, and the runs of the external diff tool (command
  name, old text, new text).
\<close>

record world =
  files :: "string \<rightharpoonup> string"
  dirs :: "string set"
  stdin :: string
  stdout :: "string list"
  sent :: "request list"
  diffs :: "(string \<times> string \<times> string) list"

text \<open>
  What lies outside the repository is a parameter: the external converter \<open>yq\<close> (its
  output, or the text of its failure), whether \<open>colordiff\<close> is installed, the exit status
  of the diff tool (\<open>None\<close> when it cannot be started), whether temporary files can be
  created, the remote server, which URLs \<open>http.NewRequest\<close> accepts, and the library
  functions \<open>json.Indent\<close>, the JSON encoder, \<open>flag.Parse\<close> for the two login flags (the
  exit status under \<open>flag.ExitOnError\<close>, or the values of \<open>base-url\<close> and \<open>token\<close>),
  \<open>os.UserHomeDir\<close>, \<open>filepath.Join\<close>, and the order in which Go ranges over a map.
\<close>

record sys =
  yq :: "string \<Rightarrow> string + string"
  has_colordiff :: bool
  diff_exit :: "string \<Rightarrow> string \<Rightarrow> string \<Rightarrow> nat option"
  createTemp_ok :: bool
  server :: "request \<Rightarrow> reply"
  newRequest_ok :: "string \<Rightarrow> bool"
  json_Indent :: "string \<Rightarrow> string option"
  json_Encode :: "Config \<Rightarrow> string"
  flag_Parse :: "string list \<Rightarrow> nat + string \<times> string"
  userHomeDir :: "string option"
  filepath_Join :: "string \<Rightarrow> string \<Rightarrow> string"
  range_order :: "(string \<times> Action) list \<Rightarrow> (string \<times> Action) list"

datatype 'a outcome = Return 'a | Exit nat | Panic

subsection \<open>Printing and reading\<close>

definition Print :: "string \<Rightarrow> world \<Rightarrow> world" where
  "Print s w = w\<lparr>stdout := stdout w @ [s]\<rparr>"

definition Println :: "string \<Rightarrow> world \<Rightarrow> world" where
  "Println s w = Print (s @ ''\<newline>'') w"

definition ReadString :: "string \<Rightarrow> string \<times> string" where
  \<comment> \<open>\<open>reader.ReadString('\n')\<close>: the text up to and with the first newline, or all of it\<close>
  "ReadString s =
     (if CHR 0x0A \<in> set s
      then (takeWhile (\<lambda>c. c \<noteq> CHR 0x0A) s @ ''\<newline>'', tl (dropWhile (\<lambda>c. c \<noteq> CHR 0x0A) s))
      else (s, []))"

definition ReadStdin :: "world \<Rightarrow> string \<times> world" where
  \<comment> \<open>reads lines until end of input and trims the whole\<close>
  "ReadStdin w = (TrimSpace (stdin w), w\<lparr>stdin := []\<rparr>)"

definition PrintJSONResponse :: "sys \<Rightarrow> string \<Rightarrow> world \<Rightarrow> world" where
  "PrintJSONResponse sy data w =
     (case json_Indent sy data of
        None \<Rightarrow> Println data w
      | Some prettyJSON \<Rightarrow> Println prettyJSON w)"

subsection \<open>Files\<close>

definition exists_path :: "world \<Rightarrow> string \<Rightarrow> bool" where
  \<comment> \<open>\<open>os.Stat\<close> returns no error\<close>
  "exists_path w p = (files w p \<noteq> None \<or> p \<in> dirs w)"

definition dir_of :: "string \<Rightarrow> string" where
  \<comment> \<open>the directory part of a path; \<open>.\<close> for a bare file name\<close>
  "dir_of p =
     (if CHR ''/'' \<in> set p then rev (tl (dropWhile (\<lambda>c. c \<noteq> CHR ''/'') (rev p)))
      else ''.'')"

definition parent_ok :: "world \<Rightarrow> string \<Rightarrow> bool" where
  "parent_ok w p = (dir_of p = ''.'' \<or> dir_of p \<in> dirs w)"

definition ReadFile :: "world \<Rightarrow> string \<Rightarrow> string + string" where
  "ReadFile w p =
     (case files w p of
        None \<Rightarrow> Inl (''open '' @ p @ '': no such file or directory'')
      | Some data \<Rightarrow> Inr data)"

definition WriteFile :: "string \<Rightarrow> string \<Rightarrow> world \<Rightarrow> string option \<times> world" where
  \<comment> \<open>\<open>os.WriteFile\<close> and \<open>os.Create\<close> followed by one write: creates or truncates\<close>
  "WriteFile p data w =
     (if p \<in> dirs w \<or> \<not> parent_ok w p then (Some (''open '' @ p @ '': cannot create''), w)
      else (None, w\<lparr>files := (files w)(p \<mapsto> data)\<rparr>))"

definition Mkdir :: "string \<Rightarrow> world \<Rightarrow> string option \<times> world" where
  "Mkdir p w =
     (if exists_path w p \<or> \<not> parent_ok w p then (Some (''mkdir '' @ p @ '': cannot create''), w)
      else (None, w\<lparr>dirs := insert p (dirs w)\<rparr>))"

section \<open>Workflow files\<close>

definition yamlContent :: string where
  \<open>yamlContent = Join
    ['''',
     ''name: Sample Workflow'',
     ''nodes:'',
     ''  - id: "1"'',
     ''    name: Start'',
     ''    type: n8n-nodes-base.manualTrigger'',
     ''    typeVersion: 1'',
     ''    position: [250, 300]'',
     ''  - id: "2"'',
     ''    name: HTTP Request'',
     ''    type: n8n-nodes-base.httpRequest'',
     ''    typeVersion: 1'',
     ''    position: [450, 300]'',
     ''    credentials:'',
     ''      httpBasicAuth:'',
     ''        id: "credential-id"'',
     ''        name: "My HTTP Basic Auth"'',
     ''    parameters:'',
     ''      url: "https://jsonplaceholder.typicode.com/posts/1"'',
     ''connections:'',
     ''  Start:'',
     ''    main:'',
     ''      - - node: HTTP Request'',
     ''          type: main'',
     ''          index: 0'',
     ''settings: {}'',
     '''']\<close>

definition GenerateStarterWorkflowYAML :: "world \<Rightarrow> string option \<times> world" where
  "GenerateStarterWorkflowYAML w =
     (let fileName = ''workflow.yaml'' in
      if exists_path w fileName then (Some (fileName @ '' already exists''), w)
      else WriteFile fileName yamlContent w)"

subsection \<open>The external diff\<close>

definition RunDiff :: "sys \<Rightarrow> string \<Rightarrow> string \<Rightarrow> world \<Rightarrow> string option \<times> world" where
  \<comment> \<open>the two temporary files are written, handed to the tool and removed again\<close>
  "RunDiff sy oldJSON newJSON w =
     (if \<not> createTemp_ok sy then (Some ''failed to create temp file for old JSON'', w)
      else
        (let diffCmdName = (if has_colordiff sy then ''colordiff'' else ''diff'');
             w1 = w\<lparr>diffs := diffs w @ [(diffCmdName, oldJSON, newJSON)]\<rparr>
         in case diff_exit sy diffCmdName oldJSON newJSON of
              None \<Rightarrow> (Some ''diff command failed: cannot run'', w1)
            | Some code \<Rightarrow>
                if code = 0 then (None, Println ''No differences detected.'' w1)
                else if code = 1 then (None, w1)
                else (Some ''diff command failed: exit status'', w1)))"

subsection \<open>The environment file\<close>

datatype oserror = NotExist string | OtherError string

definition IsNotExist :: "oserror option \<Rightarrow> bool" where
  "IsNotExist e = (case e of Some (NotExist _) \<Rightarrow> True | _ \<Rightarrow> False)"

definition SplitN2 :: "string \<Rightarrow> char \<Rightarrow> string list" where
  \<comment> \<open>\<open>strings.SplitN(s, sep, 2)\<close> for a separator of one character\<close>
  "SplitN2 s c =
     (if c \<in> set s then [takeWhile (\<lambda>x. x \<noteq> c) s, tl (dropWhile (\<lambda>x. x \<noteq> c) s)]
      else [s])"

definition envLine :: "string \<Rightarrow> (string \<rightharpoonup> string) \<Rightarrow> (string \<rightharpoonup> string)" where
  "envLine text env =
     (let line = TrimSpace text in
      if line = [] \<or> HasPrefix line ''#'' then env
      else (case SplitN2 line (CHR ''='') of
              [k, v] \<Rightarrow> env(TrimSpace k \<mapsto> Trim (TrimSpace v) (CHR 0x22))
            | _ \<Rightarrow> env))"

fun scanEnv :: "string list \<Rightarrow> (string \<rightharpoonup> string) \<Rightarrow> (string \<rightharpoonup> string) \<times> oserror option" where
  \<comment> \<open>\<open>bufio.Scanner\<close> gives up on a line of 64 KiB or more\<close>
  "scanEnv [] env = (env, None)"
| "scanEnv (l # ls) env =
     (if 65536 \<le> length l then (env, Some (OtherError ''bufio.Scanner: token too long''))
      else scanEnv ls (envLine l env))"

definition LoadDotEnv :: "string \<Rightarrow> world \<Rightarrow> (string \<rightharpoonup> string) option \<times> oserror option" where
  \<comment> \<open>the map is \<open>nil\<close> (\<open>None\<close>) exactly when the file cannot be opened\<close>
  "LoadDotEnv filename w =
     (if filename \<in> dirs w
      then (Some Map.empty, Some (OtherError (''read '' @ filename @ '': is a directory'')))
      else (case files w filename of
              None \<Rightarrow> (None, Some (NotExist (''open '' @ filename @ '': no such file or directory'')))
            | Some text \<Rightarrow>
                (case scanEnv (Split text) Map.empty of (env, err) \<Rightarrow> (Some env, err))))"

subsection \<open>Inlining script files\<close>

fun injectLines :: "sys \<Rightarrow> world \<Rightarrow> string \<Rightarrow> string list \<Rightarrow> string + string list" where
  \<comment> \<open>the loop of \<open>injectJSCode\<close> over the lines; the result is \<open>outputLines\<close>\<close>
  "injectLines sy w yamlPath [] = Inr []"
| "injectLines sy w yamlPath (line # ls) =
     (let trimmed = TrimSpace line in
      if HasPrefix trimmed ''jsCode: file('' \<and> HasSuffix trimmed '')'' then
        (let fileName = take (length trimmed - 1 - length ''jsCode: file('')
                             (drop (length ''jsCode: file('') trimmed);
             jsPath = filepath_Join sy (dir_of yamlPath) fileName
         in case ReadFile w jsPath of
              Inl e \<Rightarrow> Inl (''failed to read '' @ jsPath @ '': '' @ e)
            | Inr jsCode \<Rightarrow>
                (let indentation = take (length line - length (TrimLeft line (CHR '' ''))) line;
                     jsIndent = indentation @ ''  ''
                 in case injectLines sy w yamlPath ls of
                      Inl e \<Rightarrow> Inl e
                    | Inr out \<Rightarrow>
                        Inr ((indentation @ ''jsCode: |'')
                             # map (\<lambda>jsLine. jsIndent @ jsLine) (Split jsCode) @ out)))
      else (case injectLines sy w yamlPath ls of
              Inl e \<Rightarrow> Inl e
            | Inr out \<Rightarrow> Inr (line # out)))"

definition injectJSCode :: "sys \<Rightarrow> string \<Rightarrow> world \<Rightarrow> string + string" where
  "injectJSCode sy yamlPath w =
     (case ReadFile w yamlPath of
        Inl e \<Rightarrow> Inl (''failed to read YAML: '' @ e)
      | Inr yamlBytes \<Rightarrow>
          (case injectLines sy w yamlPath (Split yamlBytes) of
             Inl e \<Rightarrow> Inl e
           | Inr outputLines \<Rightarrow> Inr (Join outputLines)))"

subsection \<open>Preview, diff\<close>

definition prepareYAML :: "sys \<Rightarrow> world \<Rightarrow> string + string" where
  \<comment> \<open>the head of \<open>PreviewWorkflowJSONWithPrompt\<close>: the text that is handed to \<open>yq\<close>\<close>
  "prepareYAML sy w =
     (case ReadFile w ''workflow.yaml'' of
        Inl e \<Rightarrow> Inl ''workflow.yaml not found''
      | Inr yamlBytes \<Rightarrow>
          (case (if Contains yamlBytes ''jsCode: file(index.js)''
                 then (case injectJSCode sy ''workflow.yaml'' w of
                         Inl e \<Rightarrow> Inl (''failed to inject index.js code: '' @ e)
                       | Inr yamlWithJSBytes \<Rightarrow> Inr yamlWithJSBytes)
                 else Inr yamlBytes) of
             Inl e \<Rightarrow> Inl e
           | Inr yamlStr \<Rightarrow>
               (case LoadDotEnv ''.env'' w of
                  (envMap, err) \<Rightarrow>
                    if err \<noteq> None \<and> \<not> IsNotExist err then Inl ''failed to load .env file''
                    else (case envMap of
                            None \<Rightarrow> Inr yamlStr
                          | Some env \<Rightarrow> Inr (injectEnvVariables yamlStr env)))))"

text \<open>
  After \<open>yq\<close>, \<open>PreviewWorkflowJSONWithPrompt\<close> runs three blocks in sequence: it prints
  the JSON and, when the cached file can be read, its diff against it (\<open>showDiff\<close>); it
  prints the prompt and reads the answer (\<open>askSave\<close>); it writes the cached file or not
  (\<open>saveAnswer\<close>).
\<close>

definition showDiff :: "sys \<Rightarrow> string \<Rightarrow> world \<Rightarrow> string option \<times> world" where
  "showDiff sy newJSON w =
     (let old = ReadFile w ''.out/workflow.json'';
          w1 = Println newJSON (Println ''Workflow JSON preview:'' w)
      in case old of
           Inr oldJSONBytes \<Rightarrow>
             RunDiff sy oldJSONBytes newJSON
               (Println ''\<newline>Showing diff between existing and new workflow JSON:'' w1)
         | Inl e \<Rightarrow>
             (None, Println ''\<newline>No existing .out/workflow.json found, skipping diff.'' w1))"

definition save_prompt :: string where
  "save_prompt = ''\<newline>Write this JSON to .out/workflow.json? (y/N): ''"

definition askSave :: "world \<Rightarrow> string \<times> world" where
  "askSave w =
     (let w1 = Print save_prompt w;
          (line, rest) = ReadString (stdin w1)
      in (TrimSpace (ToLower line), w1\<lparr>stdin := rest\<rparr>))"

definition saveAnswer :: "string \<Rightarrow> string \<Rightarrow> world \<Rightarrow> (string + bool) \<times> world" where
  "saveAnswer answer newJSON w =
     (if answer = ''y'' \<or> answer = ''yes'' then
        (case (if \<not> exists_path w ''.out'' then Mkdir ''.out'' w else (None, w)) of
           (Some e, w1) \<Rightarrow> (Inl (''failed to create .out directory: '' @ e), w1)
         | (None, w1) \<Rightarrow>
             (case WriteFile ''.out/workflow.json'' newJSON w1 of
                (Some e, w2) \<Rightarrow> (Inl (''failed to write .out/workflow.json: '' @ e), w2)
              | (None, w2) \<Rightarrow> (Inr True, Println ''\<newline>Saved to .out/workflow.json'' w2)))
      else (Inr False, Println ''Aborted, no changes written.'' w))"

definition PreviewWorkflowJSONWithPrompt :: "sys \<Rightarrow> world \<Rightarrow> (string + bool) \<times> world" where
  "PreviewWorkflowJSONWithPrompt sy w =
     (case prepareYAML sy w of
        Inl e \<Rightarrow> (Inl e, w)
      | Inr yamlStr \<Rightarrow>
          (case yq sy yamlStr of
             Inl e \<Rightarrow> (Inl (''yq failed: '' @ e), w)
           | Inr newJSON \<Rightarrow>
               (case showDiff sy newJSON w of
                  (Some e, w1) \<Rightarrow> (Inl e, w1)
                | (None, w1) \<Rightarrow>
                    (case askSave w1 of
                       (answer, w2) \<Rightarrow> saveAnswer answer newJSON w2))))"

definition DiffWorkflowJSON :: "sys \<Rightarrow> world \<Rightarrow> string option \<times> world" where
  \<comment> \<open>here \<open>yq\<close> reads \<open>workflow.yaml\<close> itself\<close>
  "DiffWorkflowJSON sy w =
     (if \<not> exists_path w ''workflow.yaml'' then (Some ''workflow.yaml not found'', w)
      else if \<not> exists_path w ''.out/workflow.json''
      then (Some ''.out/workflow.json does not exist, please run preview and save the JSON first'', w)
      else (case (case files w ''workflow.yaml'' of
                    None \<Rightarrow> Inl ''cannot read workflow.yaml''
                  | Some text \<Rightarrow> yq sy text) of
              Inl e \<Rightarrow> (Some (''yq failed: '' @ e), w)
            | Inr newJSON \<Rightarrow>
                (case ReadFile w ''.out/workflow.json'' of
                   Inl e \<Rightarrow> (Some (''failed to read .out/workflow.json: '' @ e), w)
                 | Inr oldJSONBytes \<Rightarrow> RunDiff sy oldJSONBytes newJSON w)))"

section \<open>Requests\<close>

definition mk_request :: "string \<Rightarrow> string \<Rightarrow> string \<Rightarrow> string \<Rightarrow> request" where
  "mk_request method url body apiKey =
     \<lparr>req_method = method, req_url = url, req_body = body,
      req_headers = [(''X-N8N-API-KEY'', apiKey), (''Content-Type'', ''application/json'')]\<rparr>"

definition n8nAPIRequest ::
  "sys \<Rightarrow> string \<Rightarrow> string \<Rightarrow> string \<Rightarrow> string \<Rightarrow> world \<Rightarrow> (string + string) \<times> world" where
  "n8nAPIRequest sy method url body apiKey w =
     (if \<not> newRequest_ok sy url then (Inl (''parse '' @ url @ '': invalid URL''), w)
      else
        (let req = mk_request method url body apiKey;
             w1 = w\<lparr>sent := sent w @ [req]\<rparr>
         in case server sy req of
              TransportError e \<Rightarrow> (Inl e, w1)
            | BodyError e \<Rightarrow> (Inl e, w1)
            | Response StatusCode Status data \<Rightarrow>
                if StatusCode < 200 \<or> StatusCode \<ge> 300
                then (Inl (''API error: '' @ Status @ ''\<newline>'' @ data), w1)
                else (Inr data, w1)))"

text \<open>
  \<open>handleGenericEntityAction\<close> is a switch on the action followed by the request. The
  switch is \<open>route\<close>: it either ends the call (with the error it returns, or with the
  panic of \<open>params[0]\<close> on an empty slice) or leaves method, URL and body for the request.
\<close>

datatype plan = Call string string string | Done "string option" | Crash

definition route ::
  "sys \<Rightarrow> string \<Rightarrow> string \<Rightarrow> string list \<Rightarrow> Config \<Rightarrow> world \<Rightarrow> plan \<times> world" where
  "route sy entity action params cfg w =
     (let basePath = ToLower (BaseURL cfg) @ ''/api/v1/'' @ entity in
      if action = ''list'' then (Call ''GET'' basePath [], w)
      else if action = ''get'' then
        (case params of
           [] \<Rightarrow> (Crash, w)
         | p0 # _ \<Rightarrow> (Call ''GET'' (basePath @ ''/'' @ p0) [], w))
      else if action = ''create'' then
        (if entity = ''workflows''
         then (case GenerateStarterWorkflowYAML w of (e, w1) \<Rightarrow> (Done e, w1))
         else if length params \<ge> 2 \<and> params ! 0 = ''--data''
         then (Call ''POST'' basePath (params ! 1), w)
         else (case ReadStdin (Println ''Enter JSON data for creation:'' w) of
                 (body, w1) \<Rightarrow> (Call ''POST'' basePath body, w1)))
      else if action = ''update'' then
        (if length params < 1 then (Done (Some ''missing ID for update''), w)
         else
           (let id = params ! 0; url = basePath @ ''/'' @ id in
            if length params \<ge> 3 \<and> params ! 1 = ''--data''
            then (Call ''PATCH'' url (params ! 2), w)
            else (case ReadStdin (Println ''Enter JSON data for update:'' w) of
                    (body, w1) \<Rightarrow> (Call ''PATCH'' url body, w1))))
      else if action = ''delete'' then
        (case params of
           [] \<Rightarrow> (Crash, w)
         | p0 # _ \<Rightarrow> (Call ''DELETE'' (basePath @ ''/'' @ p0) [], w))
      else if action = ''preview'' then
        (if entity = ''workflows'' then
           (case PreviewWorkflowJSONWithPrompt sy w of
              (Inl err, w1) \<Rightarrow> (Done (Some err), w1)
            | (Inr confirmed, w1) \<Rightarrow>
                (Done None, if \<not> confirmed then Println ''Preview aborted by user.'' w1 else w1))
         else (Done (Some (''preview not supported for '' @ entity)), w))
      else if action = ''diff'' then
        (if entity = ''workflows''
         then (case DiffWorkflowJSON sy w of (e, w1) \<Rightarrow> (Done e, w1))
         else (Done (Some (''diff not supported for '' @ entity)), w))
      else if action = ''deploy'' then
        (if entity = ''workflows'' then
           (case PreviewWorkflowJSONWithPrompt sy w of
              (Inl err, w1) \<Rightarrow> (Done (Some err), w1)
            | (Inr confirmed, w1) \<Rightarrow>
                if \<not> confirmed then (Done None, Println ''Deploy aborted by user.'' w1)
                else
                  (let jsonPath = ''.out/workflow.json'' in
                   case ReadFile w1 jsonPath of
                     Inl e \<Rightarrow> (Done (Some (''could not read '' @ jsonPath @ '': '' @ e)), w1)
                   | Inr jsonBytes \<Rightarrow> (Call ''POST'' basePath jsonBytes, w1)))
         else (Done (Some (''deploy not supported for '' @ entity)), w))
      else if action = ''activate'' \<or> action = ''deactivate'' then
        (case params of
           [] \<Rightarrow> (Crash, w)
         | p0 # _ \<Rightarrow> (Call ''POST'' (basePath @ ''/'' @ p0 @ ''/'' @ action) [], w))
      else (Done (Some (''action '' @ action @ '' not implemented for entity '' @ entity)), w))"

definition handleGenericEntityAction ::
  "sys \<Rightarrow> string \<Rightarrow> string \<Rightarrow> string list \<Rightarrow> Config \<Rightarrow> world \<Rightarrow> string option outcome \<times> world" where
  "handleGenericEntityAction sy entity action params cfg w =
     (case route sy entity action params cfg w of
        (Crash, w1) \<Rightarrow> (Panic, w1)
      | (Done e, w1) \<Rightarrow> (Return e, w1)
      | (Call method url body, w1) \<Rightarrow>
          (case n8nAPIRequest sy method url body (APIToken cfg) w1 of
             (Inl err, w2) \<Rightarrow> (Return (Some err), w2)
           | (Inr resp, w2) \<Rightarrow>
               if action = ''delete''
               then (Return None, Print (entity @ '' '' @ action @ '' successful\<newline>'') w2)
               else (Return None, PrintJSONResponse sy resp w2)))"

section \<open>Commands\<close>

definition pad10 :: "string \<Rightarrow> string" where
  \<comment> \<open>the verb \<open>%-10s\<close>\<close>
  "pad10 s = s @ replicate (10 - length s) (CHR '' '')"

definition PrintEntityHelp ::
  "sys \<Rightarrow> string \<Rightarrow> (string \<times> Action) list \<Rightarrow> bool \<Rightarrow> world \<Rightarrow> world" where
  "PrintEntityHelp sy entity actions showSchema w =
     (let w1 = Print (''Available actions for '' @ entity @ '':\<newline>'') w;
          w2 = fold (\<lambda>(actionName, action) v.
                  (let v1 = Print (''  '' @ pad10 actionName @ '' '' @ Description action @ ''\<newline>'') v in
                   if showSchema \<and> Schema action \<noteq> []
                   then fold (\<lambda>line. Print (''      '' @ line @ ''\<newline>''))
                          (Split (Schema action)) (Println ''    Example schema:'' v1)
                   else v1))
                (range_order sy actions) w1;
          w3 = Print (''\<newline>Usage:\<newline>  n8nctl '' @ entity @ '' <action> [id] [flags]\<newline>'') w2;
          w4 = Println ''\<newline>Flags:'' w3
      in Println ''  --schema  Show JSON schema for the action (use with --help or an action)'' w4)"

definition HandleEntityCommand ::
  "sys \<Rightarrow> string \<Rightarrow> string list \<Rightarrow> (string \<times> Action) list \<Rightarrow> Config \<Rightarrow> world \<Rightarrow> unit outcome \<times> world" where
  "HandleEntityCommand sy entity args actions cfg w =
     (case args of
        [] \<Rightarrow> (Exit 1, Print (entity @ '' requires an action. Use --help for available actions.\<newline>'') w)
      | action # params \<Rightarrow>
          (let showSchema = (''--schema'' \<in> set args) in
           if action = ''--help'' \<or> action = ''-h''
           then (Return (), PrintEntityHelp sy entity actions showSchema w)
           else if showSchema then
             (case map_of actions action of
                None \<Rightarrow> (Exit 1, Print (''Unknown action for '' @ entity @ '': '' @ action @ ''\<newline>'') w)
              | Some a \<Rightarrow>
                  if Schema a = []
                  then (Return (), Print (''No schema available for action '' @ action @ '' on entity ''
                                          @ entity @ ''\<newline>'') w)
                  else (Return (), Println (Schema a)
                                     (Print (''Schema for '' @ entity @ '' '' @ action @ '':\<newline>'') w)))
           else
             (case map_of actions action of
                None \<Rightarrow> (Exit 1, Print (''Unknown action for '' @ entity @ '': '' @ action @ ''\<newline>'') w)
              | Some a \<Rightarrow>
                  if NeedsID a \<and> length args < 2
                  then (Exit 1, Print (''Action '' @ [CHR 0x27] @ action @ [CHR 0x27]
                                       @ '' requires an ID parameter\<newline>'') w)
                  else
                    (case handleGenericEntityAction sy entity action params cfg w of
                       (Panic, w1) \<Rightarrow> (Panic, w1)
                     | (Exit n, w1) \<Rightarrow> (Exit n, w1)
                     | (Return None, w1) \<Rightarrow> (Return (), w1)
                     | (Return (Some err), w1) \<Rightarrow> (Exit 1, Print (''Error: '' @ err @ ''\<newline>'') w1)))))"

subsection \<open>Configuration and login\<close>

definition configPath :: "sys \<Rightarrow> world \<Rightarrow> (string + string) \<times> world" where
  "configPath sy w =
     (case userHomeDir sy of
        None \<Rightarrow> (Inl ''$HOME is not defined'', w)
      | Some home \<Rightarrow>
          (let configDir = filepath_Join sy home ''.n8nctl'';
               (merr, w1) = (if \<not> exists_path w configDir then Mkdir configDir w else (None, w))
           in case merr of
                Some e \<Rightarrow> (Inl e, w1)
              | None \<Rightarrow> (Inr (filepath_Join sy configDir ''config.json''), w1)))"

definition SaveConfig :: "sys \<Rightarrow> Config \<Rightarrow> world \<Rightarrow> string option \<times> world" where
  "SaveConfig sy cfg w =
     (case configPath sy w of
        (Inl e, w1) \<Rightarrow> (Some e, w1)
      | (Inr path, w1) \<Rightarrow> WriteFile path (json_Encode sy cfg) w1)"

definition HandleLogin :: "sys \<Rightarrow> string list \<Rightarrow> world \<Rightarrow> unit outcome \<times> world" where
  "HandleLogin sy args w =
     (case flag_Parse sy args of
        Inl code \<Rightarrow> (Exit code, w)
      | Inr (baseURL0, token0) \<Rightarrow>
          (let (baseURL, w1) =
                 (if baseURL0 = [] then
                    (let v = Print ''Enter API base URL: '' w;
                         (input, rest) = ReadString (stdin v)
                     in (TrimSpace input, v\<lparr>stdin := rest\<rparr>))
                  else (baseURL0, w));
               (token, w2) =
                 (if token0 = [] then
                    (let v = Print (''Enter API token (visit '' @ baseURL
                                    @ ''/settings/api to generate one): '') w1;
                         (input, rest) = ReadString (stdin v)
                     in (TrimSpace input, v\<lparr>stdin := rest\<rparr>))
                  else (token0, w1))
           in if token = [] \<or> baseURL = []
              then (Exit 1, Println ''Error: both token and base-url are required'' w2)
              else
                (let cfg = \<lparr>APIToken = token, BaseURL = TrimRight baseURL (CHR ''/'')\<rparr> in
                 case SaveConfig sy cfg w2 of
                   (Some e, w3) \<Rightarrow> (Exit 1, Print (''Failed to save config: '' @ e @ ''\<newline>'') w3)
                 | (None, w3) \<Rightarrow> (Return (), Println ''Login successful, credentials saved.'' w3))))"

section \<open>Vocabulary of the properties\<close>

definition isIdent :: "string \<Rightarrow> bool" where
  \<comment> \<open>a name of the form \<open>[A-Za-z_][A-Za-z0-9_]*\<close>\<close>
  "isIdent n = (n \<noteq> [] \<and> isIdentStart (hd n) \<and> list_all isIdentChar n)"

definition hasUpper :: "string \<Rightarrow> bool" where
  \<comment> \<open>some character is an upper-case letter\<close>
  "hasUpper s = list_ex isUpper s"

definition registry_row :: "string \<Rightarrow> string \<Rightarrow> Action \<Rightarrow> bool" where
  \<comment> \<open>what every row of the registry satisfies: the known actions, which of them need an
     ID, and which entity has the workflow-only ones\<close>
  "registry_row e n a =
     ((n = ''list'' \<or> n = ''get'' \<or> n = ''create'' \<or> n = ''update'' \<or> n = ''delete''
        \<or> n = ''activate'' \<or> n = ''deactivate'' \<or> n = ''preview'' \<or> n = ''diff''
        \<or> n = ''deploy'' \<or> n = ''rollback'')
      \<and> (NeedsID a = (n = ''get'' \<or> n = ''update'' \<or> n = ''delete''
                         \<or> n = ''activate'' \<or> n = ''deactivate''))
      \<and> (e = ''workflows'' \<or> (n = ''list'' \<or> n = ''get'' \<or> n = ''create'' \<or> n = ''update''
                                  \<or> n = ''delete'')))"

subsection \<open>A concrete environment and world\<close>

definition sys0 :: sys where
  "sys0 = \<lparr>yq = Inr, has_colordiff = False,
           diff_exit = (\<lambda>cmd old new. Some (if old = new then 0 else 1)),
           createTemp_ok = True,
           server = (\<lambda>r. if req_method r = ''GET'' then Response 200 ''200 OK'' ''[]''
                          else Response 404 ''404 Not Found'' ''no''),
           newRequest_ok = (\<lambda>u. True),
           json_Indent = Some,
           json_Encode = (\<lambda>c. APIToken c @ '' '' @ BaseURL c),
           flag_Parse = (\<lambda>args. case args of [b, t] \<Rightarrow> Inr (b, t) | _ \<Rightarrow> Inl 2),
           userHomeDir = Some ''/home/u'',
           filepath_Join = (\<lambda>d f. if d = ''.'' then f else d @ ''/'' @ f),
           range_order = (\<lambda>xs. xs)\<rparr>"

definition world0 :: world where
  "world0 = \<lparr>files = Map.empty, dirs = {}, stdin = [], stdout = [], sent = [], diffs = []\<rparr>"

definition cfg0 :: Config where
  "cfg0 = \<lparr>APIToken = ''secret'', BaseURL = ''HTTP://N8N''\<rparr>"

definition world_yes :: world where
  \<comment> \<open>a workflow source and the answer yes\<close>
  "world_yes = world0\<lparr>files := [''workflow.yaml'' \<mapsto> ''name: demo''], stdin := ''y\<newline>''\<rparr>"

definition world_no :: world where
  \<comment> \<open>a workflow source, a cached translation and the answer no\<close>
  "world_no = world0\<lparr>files := [''workflow.yaml'' \<mapsto> ''name: demo'',
                                 ''.out/workflow.json'' \<mapsto> ''name: old''],
                       dirs := {''.out''}, stdin := ''n\<newline>''\<rparr>"

section \<open>Properties of the substitution\<close>

lemma Contains_iff: "Contains s sub \<longleftrightarrow> (\<exists>pre post. s = pre @ sub @ post)"
proof (induction s)
  case Nil
  show ?case by auto
next
  case (Cons c cs)
  show ?case
  proof
    assume "Contains (c # cs) sub"
    then consider "prefix sub (c # cs)" | "Contains cs sub" by auto
    then show "\<exists>pre post. c # cs = pre @ sub @ post"
    proof cases
      case 1
      then obtain post where "c # cs = sub @ post" by (auto simp: prefix_def)
      then have "c # cs = [] @ sub @ post" by simp
      then show ?thesis by blast
    next
      case 2
      with Cons obtain pre post where "cs = pre @ sub @ post" by blast
      then have "c # cs = (c # pre) @ sub @ post" by simp
      then show ?thesis by blast
    qed
  next
    assume "\<exists>pre post. c # cs = pre @ sub @ post"
    then obtain pre post where e: "c # cs = pre @ sub @ post" by blast
    show "Contains (c # cs) sub"
    proof (cases pre)
      case Nil
      with e have "prefix sub (c # cs)" by (simp add: prefix_def)
      then show ?thesis by simp
    next
      case (Cons a pre')
      with e have "cs = pre' @ sub @ post" by simp
      with Cons.IH have "Contains cs sub" by blast
      then show ?thesis by simp
    qed
  qed
qed

lemma takeWhile_stop: "\<not> P x \<Longrightarrow> takeWhile P (xs @ x # ys) = takeWhile P xs"
  by (induction xs) auto

lemma dropWhile_stop: "\<not> P x \<Longrightarrow> dropWhile P (xs @ x # ys) = dropWhile P xs @ x # ys"
  by (induction xs) auto

lemma span_all:
  "list_all P xs \<Longrightarrow> ys \<noteq> [] \<Longrightarrow> \<not> P (hd ys) \<Longrightarrow>
   takeWhile P (xs @ ys) = xs \<and> dropWhile P (xs @ ys) = ys"
  by (induction xs) (auto simp: neq_Nil_conv)

lemma dollar_classes:
  "\<not> isReSpace (CHR ''$'')" "\<not> isIdentChar (CHR ''$'')"
  by (simp_all add: isReSpace_def isIdentChar_def isUpper_def isLower_def isDigit_def)

lemma class_facts:
  "isIdentStart c \<Longrightarrow> \<not> isReSpace c"
  "isReSpace c \<Longrightarrow> \<not> isIdentChar c"
  "\<not> isIdentChar (CHR ''}'')"
  "\<not> isReSpace (CHR ''}'')"
  by (auto simp: isReSpace_def isIdentChar_def isIdentStart_def isUpper_def isLower_def isDigit_def)

lemma prefix_snoc_dollar3:
  "p \<noteq> [] \<Longrightarrow> prefix ''${{'' (p @ CHR ''$'' # q) = prefix ''${{'' p"
  by (cases p; cases "tl p"; cases "tl (tl p)") auto

lemma prefix_snoc_dollar2:
  "prefix ''}}'' (p @ CHR ''$'' # q) = prefix ''}}'' p"
  by (cases p; cases "tl p") auto

text \<open>A match holds one dollar sign, its first character: what follows the next dollar
  sign of the input has no part in it.\<close>

lemma match_placeholder_before_dollar:
  assumes "p \<noteq> []"
  shows "match_placeholder (p @ CHR ''$'' # q) =
         map_option (\<lambda>(m, name, rest). (m, name, rest @ CHR ''$'' # q)) (match_placeholder p)"
proof (cases "prefix ''${{'' p")
  case False
  with assms show ?thesis by (simp add: match_placeholder_def prefix_snoc_dollar3)
next
  case True
  then obtain r where p: "p = ''${{'' @ r" by (auto simp: prefix_def)
  define r1 where "r1 = dropWhile isReSpace r"
  define r2 where "r2 = dropWhile isIdentChar r1"
  define r3 where "r3 = dropWhile isReSpace r2"
  have a: "dropWhile isReSpace (r @ CHR ''$'' # q) = r1 @ CHR ''$'' # q"
    "takeWhile isReSpace (r @ CHR ''$'' # q) = takeWhile isReSpace r"
    unfolding r1_def by (simp_all add: takeWhile_stop dropWhile_stop dollar_classes)
  have b: "dropWhile isIdentChar (r1 @ CHR ''$'' # q) = r2 @ CHR ''$'' # q"
    "takeWhile isIdentChar (r1 @ CHR ''$'' # q) = takeWhile isIdentChar r1"
    unfolding r2_def by (simp_all add: takeWhile_stop dropWhile_stop dollar_classes)
  have c: "dropWhile isReSpace (r2 @ CHR ''$'' # q) = r3 @ CHR ''$'' # q"
    "takeWhile isReSpace (r2 @ CHR ''$'' # q) = takeWhile isReSpace r2"
    unfolding r3_def by (simp_all add: takeWhile_stop dropWhile_stop dollar_classes)
  have d: "prefix ''}}'' r3 \<Longrightarrow> drop 2 (r3 @ CHR ''$'' # q) = drop 2 r3 @ CHR ''$'' # q"
    by (auto simp: prefix_def)
  show ?thesis
    unfolding p match_placeholder_def
    using d
    by (simp add: Let_def a b c prefix_snoc_dollar2
          r1_def[symmetric] r2_def[symmetric] r3_def[symmetric])
qed

lemma injectEnvVariables_before_dollar:
  "injectEnvVariables (p @ CHR ''$'' # q) env =
   injectEnvVariables p env @ injectEnvVariables (CHR ''$'' # q) env"
proof -
  define z where "z = CHR ''$'' # q"
  have "injectEnvVariables (p @ z) env = injectEnvVariables p env @ injectEnvVariables z env"
  proof (induction p env rule: injectEnvVariables.induct)
    case (1 env)
    show ?case by simp
  next
    case (2 c cs env)
    show ?case
    proof (cases "match_placeholder (c # cs)")
      case None
      then have "match_placeholder ((c # cs) @ z) = None"
        unfolding z_def by (simp add: match_placeholder_before_dollar del: append_Cons)
      then have mz: "match_placeholder (c # cs @ z) = None" by simp
      have a: "injectEnvVariables (c # cs) env = c # injectEnvVariables cs env"
        by (subst injectEnvVariables.simps) (simp add: None)
      have b: "injectEnvVariables (c # cs @ z) env = c # injectEnvVariables (cs @ z) env"
        by (subst injectEnvVariables.simps) (simp add: mz)
      show ?thesis
        unfolding append_Cons a b using 2(1)[OF None] by (simp del: injectEnvVariables.simps)
    next
      case (Some t)
      obtain m name rest where t: "t = (m, name, rest)" by (cases t)
      from Some t have "match_placeholder ((c # cs) @ z) = Some (m, name, rest @ z)"
        unfolding z_def by (simp add: match_placeholder_before_dollar del: append_Cons)
      then have mz: "match_placeholder (c # cs @ z) = Some (m, name, rest @ z)" by simp
      have a: "injectEnvVariables (c # cs) env =
           (case env name of Some val \<Rightarrow> val | None \<Rightarrow> m) @ injectEnvVariables rest env"
        by (subst injectEnvVariables.simps) (simp add: Some t)
      have b: "injectEnvVariables (c # cs @ z) env =
           (case env name of Some val \<Rightarrow> val | None \<Rightarrow> m) @ injectEnvVariables (rest @ z) env"
        by (subst injectEnvVariables.simps) (simp add: mz)
      have ih: "injectEnvVariables (rest @ z) env =
                injectEnvVariables rest env @ injectEnvVariables z env"
        by (rule 2(2)[OF Some[unfolded t] refl refl])
      show ?thesis unfolding append_Cons a b ih by (simp del: injectEnvVariables.simps)
    qed
  qed
  then show ?thesis unfolding z_def .
qed

lemma match_placeholder_exact:
  assumes "isIdent name" "list_all isReSpace ws1" "list_all isReSpace ws2"
  shows "match_placeholder (''${{'' @ ws1 @ name @ ws2 @ ''}}'' @ post) =
         Some (''${{'' @ ws1 @ name @ ws2 @ ''}}'', name, post)"
proof -
  from assms(1) have n: "name \<noteq> []" "isIdentStart (hd name)" "list_all isIdentChar name"
    by (simp_all add: isIdent_def)
  have 1: "takeWhile isReSpace (ws1 @ name @ ws2 @ ''}}'' @ post) = ws1 \<and>
           dropWhile isReSpace (ws1 @ name @ ws2 @ ''}}'' @ post) = name @ ws2 @ ''}}'' @ post"
    using span_all[OF assms(2), of "name @ ws2 @ ''}}'' @ post"] n class_facts(1) by simp
  have "\<not> isIdentChar (hd (ws2 @ ''}}'' @ post))"
    using assms(3) class_facts(2,3) by (cases ws2) auto
  then have 2: "takeWhile isIdentChar (name @ ws2 @ ''}}'' @ post) = name \<and>
           dropWhile isIdentChar (name @ ws2 @ ''}}'' @ post) = ws2 @ ''}}'' @ post"
    using span_all[OF n(3), of "ws2 @ ''}}'' @ post"] by simp
  have 3: "takeWhile isReSpace (ws2 @ ''}}'' @ post) = ws2 \<and>
           dropWhile isReSpace (ws2 @ ''}}'' @ post) = ''}}'' @ post"
    using span_all[OF assms(3), of "''}}'' @ post"] class_facts(4) by simp
  show ?thesis
    unfolding match_placeholder_def using 1 2 3 n by (simp add: Let_def)
qed

lemma injectEnvVariables_at_placeholder:
  assumes "isIdent name" "list_all isReSpace ws1" "list_all isReSpace ws2"
  shows "injectEnvVariables (pre @ ''${{'' @ ws1 @ name @ ws2 @ ''}}'' @ post) env =
           injectEnvVariables pre env
           @ (case env name of Some val \<Rightarrow> val | None \<Rightarrow> ''${{'' @ ws1 @ name @ ws2 @ ''}}'')
           @ injectEnvVariables post env"
proof -
  define q where "q = ''{{'' @ ws1 @ name @ ws2 @ ''}}'' @ post"
  have m: "match_placeholder (CHR ''$'' # q) =
           Some (''${{'' @ ws1 @ name @ ws2 @ ''}}'', name, post)"
    using match_placeholder_exact[OF assms, of post] unfolding q_def by simp
  have "injectEnvVariables (CHR ''$'' # q) env =
        (case env name of Some val \<Rightarrow> val | None \<Rightarrow> ''${{'' @ ws1 @ name @ ws2 @ ''}}'')
         @ injectEnvVariables post env"
    by (subst injectEnvVariables.simps) (simp add: m split: option.split)
  moreover have "pre @ ''${{'' @ ws1 @ name @ ws2 @ ''}}'' @ post = pre @ CHR ''$'' # q"
    unfolding q_def by simp
  ultimately show ?thesis
    by (simp only: injectEnvVariables_before_dollar)
qed

text \<open>
  Claim C6. Wherever a placeholder \<open>${{NAME}}\<close> stands in the input (\<open>NAME\<close> an identifier,
  white space allowed inside the braces), the output has the map's value for \<open>NAME\<close> in
  its place when \<open>NAME\<close> is a key of the map, and the placeholder itself, unchanged, when
  it is not; the text before and the text after it are substituted on their own. In
  particular, with \<open>FOO\<close> mapped to \<open>bar\<close>, an input that contains \<open>${{FOO}}\<close> gives an
  output that contains \<open>bar\<close>.
\<close>

theorem injectEnvVariables_occurrence:
  assumes "isIdent name" "list_all isReSpace ws1" "list_all isReSpace ws2"
  shows "injectEnvVariables (pre @ ''${{'' @ ws1 @ name @ ws2 @ ''}}'' @ post) env =
           injectEnvVariables pre env
           @ (case env name of Some val \<Rightarrow> val | None \<Rightarrow> ''${{'' @ ws1 @ name @ ws2 @ ''}}'')
           @ injectEnvVariables post env
         \<and> (env ''FOO'' = Some ''bar'' \<and> Contains s ''${{FOO}}''
              \<longrightarrow> Contains (injectEnvVariables s env) ''bar'')"
proof
  show "injectEnvVariables (pre @ ''${{'' @ ws1 @ name @ ws2 @ ''}}'' @ post) env =
           injectEnvVariables pre env
           @ (case env name of Some val \<Rightarrow> val | None \<Rightarrow> ''${{'' @ ws1 @ name @ ws2 @ ''}}'')
           @ injectEnvVariables post env"
    by (rule injectEnvVariables_at_placeholder[OF assms])
  show "env ''FOO'' = Some ''bar'' \<and> Contains s ''${{FOO}}''
          \<longrightarrow> Contains (injectEnvVariables s env) ''bar''"
  proof
    assume a: "env ''FOO'' = Some ''bar'' \<and> Contains s ''${{FOO}}''"
    then obtain p t where s: "s = p @ ''${{FOO}}'' @ t" unfolding Contains_iff by blast
    have i: "isIdent ''FOO''"
      by (simp add: isIdent_def isIdentStart_def isIdentChar_def isUpper_def)
    have "injectEnvVariables (p @ ''${{'' @ [] @ ''FOO'' @ [] @ ''}}'' @ t) env =
          injectEnvVariables p env @ ''bar'' @ injectEnvVariables t env"
      using injectEnvVariables_at_placeholder[OF i, of "[]" "[]" p t env] a by simp
    then have "injectEnvVariables s env =
               injectEnvVariables p env @ ''bar'' @ injectEnvVariables t env"
      unfolding s by simp
    then show "Contains (injectEnvVariables s env) ''bar''"
      unfolding Contains_iff by blast
  qed
qed

lemmas char_class_defs =
  isSpace_def isReSpace_def isIdentChar_def isIdentStart_def isUpper_def isLower_def isDigit_def

theorem injectEnvVariables_occurrence_witness:
  "isIdent ''FOO'' \<and> list_all isReSpace [] \<and> list_all isReSpace '' ''
   \<and> injectEnvVariables (''a: '' @ ''${{'' @ [] @ ''FOO'' @ '' '' @ ''}}'' @ '' b: ${{BAZ}}'')
        [''FOO'' \<mapsto> ''bar''] = ''a: bar b: ${{BAZ}}''
   \<and> Contains (injectEnvVariables ''x${{FOO}}'' [''FOO'' \<mapsto> ''bar'']) ''bar''"
proof -
  have h: "isIdent ''FOO''" "list_all isReSpace []" "list_all isReSpace '' ''"
    by (simp_all add: isIdent_def char_class_defs)
  have c: "[''FOO'' \<mapsto> ''bar''] ''FOO'' = Some ''bar'' \<and> Contains ''x${{FOO}}'' ''${{FOO}}''"
    by simp
  from injectEnvVariables_occurrence[OF h, of "''a: ''" "'' b: ${{BAZ}}''" "[''FOO'' \<mapsto> ''bar'']"
      "''x${{FOO}}''"] c h
  show ?thesis
    by (simp add: match_placeholder_def Let_def char_class_defs)
qed

end
